theory Spec2Isabelle
  imports Main
begin

section \<open>Data model\<close>

text \<open>
  A relation is the object \<^verbatim>\<open>{ type, targetId }\<close> stored in a member's \<^verbatim>\<open>relations\<close>
  array. At run time the type is an arbitrary string (\<^verbatim>\<open>reciprocal\<close> takes a string and
  the importer keeps any string), so it is a string here.
\<close>

record relation =
  rel_type :: string
  targetId :: string

text \<open>
  Modelled from the spec: the \<^verbatim>\<open>Member\<close> type is declared in \<^verbatim>\<open>@/types/family\<close>, which is
  not among the sources; the fields are those the spec lists and \<^verbatim>\<open>tree.tsx\<close> reads and
  writes. An optional field is an \<open>option\<close>. A missing \<^verbatim>\<open>relations\<close> array is read as the
  empty one everywhere in the source (\<^verbatim>\<open>m.relations || []\<close>, \<^verbatim>\<open>relations?.find\<close>), so the field
  is a list.
\<close>

record member =
  id_m :: string
  name :: string
  dob :: "string option"
  email :: "string option"
  photo :: "string option"
  sex :: "string option"
  relations :: "relation list"

subsection \<open>JavaScript strings\<close>

text \<open>
  \<^verbatim>\<open>String.prototype.trim\<close> strips white space and line terminators from both ends. A
  character of a \<open>string\<close> stands for the code unit of the same number; below 256 the
  characters stripped are TAB, LF, VT, FF, CR, SPACE and NBSP.
\<close>

definition isWhiteSpace :: "char \<Rightarrow> bool" where
  "isWhiteSpace c =
     (c \<in> set [CHR 0x09, CHR 0x0A, CHR 0x0B, CHR 0x0C, CHR 0x0D, CHR 0x20, CHR 0xA0])"

definition trim :: "string \<Rightarrow> string" where
  "trim s = rev (dropWhile isWhiteSpace (rev (dropWhile isWhiteSpace s)))"

text \<open>Truthiness of a value of type \<^verbatim>\<open>string | null\<close>: \<^verbatim>\<open>null\<close> and \<^verbatim>\<open>''\<close> are falsy.\<close>

definition falsy :: "string option \<Rightarrow> bool" where
  "falsy v = (case v of None \<Rightarrow> True | Some s \<Rightarrow> s = [])"

text \<open>Decimal rendering of a non-negative integer, as a template literal prints it.\<close>

definition digit :: "nat \<Rightarrow> char" where
  "digit d = char_of (48 + d)"

fun dec :: "nat \<Rightarrow> string" where
  "dec n = (if n < 10 then [digit n] else dec (n div 10) @ [digit (n mod 10)])"

declare dec.simps [simp del]

section \<open>Relation Mutator\<close>

subsection \<open>\<^verbatim>\<open>reciprocal\<close>\<close>

definition reciprocal :: "string \<Rightarrow> string" where
  "reciprocal ty =
     (if ty = ''parent'' then ''child''
      else if ty = ''child'' then ''parent''
      else if ty = ''spouse'' \<or> ty = ''partner'' \<or> ty = ''sibling'' then ty
      else ''other'')"

subsection \<open>Looking members up and pushing onto their relations\<close>

text \<open>\<^verbatim>\<open>list.find(m => m.id === id)\<close>: the first member with that id, if any.\<close>

definition find_member :: "member list \<Rightarrow> string \<Rightarrow> member option" where
  "find_member list i = List.find (\<lambda>m. id_m m = i) list"

text \<open>
  The relations array of the object \<^verbatim>\<open>list.find(m => m.id === id)\<close> as it stands in the
  current list; empty when no member has the id (\<^verbatim>\<open>sourceMember?.relations?. ...\<close>).
\<close>

definition relationsOf :: "member list \<Rightarrow> string \<Rightarrow> relation list" where
  "relationsOf list i = (case find_member list i of None \<Rightarrow> [] | Some m \<Rightarrow> relations m)"

text \<open>
  \<^verbatim>\<open>m.relations.push(r)\<close> on the object found for id \<open>i\<close>. The member objects of a list are
  pairwise different objects (they come from \<^verbatim>\<open>JSON.parse\<close>, the sanitizer or an object
  literal), so the in-place push changes exactly the first entry with that id.
\<close>

fun push_relation :: "string \<Rightarrow> relation \<Rightarrow> member list \<Rightarrow> member list" where
  "push_relation i r [] = []"
| "push_relation i r (m # ms) =
     (if id_m m = i then m\<lparr>relations := relations m @ [r]\<rparr> # ms
      else m # push_relation i r ms)"

text \<open>\<^verbatim>\<open>rels.find((r) => r.targetId === id && r.type === ty)\<close> is truthy.\<close>

definition has_relation :: "relation list \<Rightarrow> string \<Rightarrow> string \<Rightarrow> bool" where
  "has_relation rels i ty = (\<exists>r \<in> set rels. targetId r = i \<and> rel_type r = ty)"

subsection \<open>\<^verbatim>\<open>addRelationPair\<close>\<close>

text \<open>
  Both members are looked up first; the second array is tested after the first push, and
  it is the same array when both ids find the same object, hence the second test reads the
  relations in \<open>list1\<close>.
\<close>

definition addRelationPair :: "member list \<Rightarrow> string \<Rightarrow> string \<Rightarrow> string \<Rightarrow> member list" where
  "addRelationPair list id1 id2 type1to2 =
     (case find_member list id1 of None \<Rightarrow> list
      | Some m1 \<Rightarrow>
     (case find_member list id2 of None \<Rightarrow> list
      | Some m2 \<Rightarrow>
          let list1 = (if \<not> has_relation (relations m1) id2 type1to2
                       then push_relation id1 \<lparr>rel_type = type1to2, targetId = id2\<rparr> list
                       else list);
              type2to1 = reciprocal type1to2
          in if \<not> has_relation (relationsOf list1 id2) id1 type2to1
             then push_relation id2 \<lparr>rel_type = type2to1, targetId = id1\<rparr> list1
             else list1))"

subsection \<open>\<^verbatim>\<open>saveQuickRelation\<close>\<close>

text \<open>The relation types the quick-relation modal can carry.\<close>

datatype quick_type = Child | Spouse | Sibling

fun type_name :: "quick_type \<Rightarrow> string" where
  "type_name Child = ''child''"
| "type_name Spouse = ''spouse''"
| "type_name Sibling = ''sibling''"

text \<open>
  The component state the callback reads besides \<^verbatim>\<open>members\<close>: the modal
  (\<^verbatim>\<open>relationModal.open\<close>, \<^verbatim>\<open>.sourceId\<close>, \<^verbatim>\<open>.type\<close>) and the target form.
\<close>

record request =
  modal_open :: bool
  sourceId :: "string option"
  modal_type :: "quick_type option"
  useNewTarget :: bool
  newTargetName :: string
  selectedTargetId :: "string option"

text \<open>
  What the callback reads from outside the component: the stored \<^verbatim>\<open>currentUser\<close> key,
  \<^verbatim>\<open>Date.now()\<close> and \<^verbatim>\<open>Math.floor(Math.random() * 10000)\<close>.
\<close>

record env =
  userKey :: "string option"
  now :: nat
  rand :: nat

definition newMemberId :: "env \<Rightarrow> string" where
  "newMemberId e = dec (now e) @ ''-'' @ dec (rand e)"

text \<open>Every way the callback returns without saving.\<close>

datatype error = NotOpen | NoUser | NameRequired | SelectMember | CannotRelateSelf

definition isSpouseOrPartner :: "relation \<Rightarrow> bool" where
  "isSpouseOrPartner r = (rel_type r = ''spouse'' \<or> rel_type r = ''partner'')"

text \<open>
  \<^verbatim>\<open>finalTargetId\<close> once the target form has been read: the generated id for a new member,
  the selected id otherwise.
\<close>

definition finalTarget :: "env \<Rightarrow> request \<Rightarrow> string option" where
  "finalTarget e rq = (if useNewTarget rq then Some (newMemberId e) else selectedTargetId rq)"

text \<open>
  The statements after the validation: the call of \<^verbatim>\<open>addRelationPair\<close> for the requested
  pair, then joint parenting for a child and child linking for a spouse. \<^verbatim>\<open>childrenRels\<close> is
  a filtered copy, so the \<^verbatim>\<open>forEach\<close> runs over the children as they were before its first
  step.
\<close>

definition linkMembers :: "member list \<Rightarrow> string \<Rightarrow> string \<Rightarrow> quick_type \<Rightarrow> member list" where
  "linkMembers list source target ty =
     (let list1 = addRelationPair list source target (type_name ty)
      in case ty of
           Child \<Rightarrow>
             (case List.find isSpouseOrPartner (relationsOf list1 source) of
                None \<Rightarrow> list1
              | Some spouseRel \<Rightarrow> addRelationPair list1 (targetId spouseRel) target ''child'')
         | Spouse \<Rightarrow>
             foldl (\<lambda>l c. addRelationPair l target (targetId c) ''child'') list1
               (filter (\<lambda>r. rel_type r = ''child'') (relationsOf list1 source))
         | Sibling \<Rightarrow> list1)"

text \<open>The member object pushed for a new target.\<close>

definition newMember :: "env \<Rightarrow> request \<Rightarrow> member" where
  "newMember e rq =
     \<lparr>id_m = newMemberId e, name = trim (newTargetName rq),
      dob = None, email = None, photo = None, sex = None, relations = []\<rparr>"

text \<open>
  The result is the list handed to \<^verbatim>\<open>saveFamily\<close> and \<^verbatim>\<open>setMembers\<close>, or the reason for
  returning early. \<open>list\<close> starts as a copy of the \<^verbatim>\<open>members\<close> array, so the push of a new
  member does not reach the \<^verbatim>\<open>members\<close> state.
\<close>

definition saveQuickRelation :: "env \<Rightarrow> request \<Rightarrow> member list \<Rightarrow> error + member list" where
  "saveQuickRelation e rq members =
     (case (sourceId rq, modal_type rq) of
        (Some source, Some ty) \<Rightarrow>
          if \<not> modal_open rq \<or> source = [] then Inl NotOpen
          else if falsy (userKey e) then Inl NoUser
          else if useNewTarget rq \<and> trim (newTargetName rq) = [] then Inl NameRequired
          else
            let list = (if useNewTarget rq then members @ [newMember e rq] else members)
            in (case finalTarget e rq of
                  None \<Rightarrow> Inl SelectMember
                | Some target \<Rightarrow>
                    if target = [] then Inl SelectMember
                    else if target = source then Inl CannotRelateSelf
                    else Inr (linkMembers list source target ty))
      | _ \<Rightarrow> Inl NotOpen)"

text \<open>
  The \<^verbatim>\<open>members\<close> state after the callback: \<^verbatim>\<open>setMembers(list)\<close> when it saved, the
  state as it was on every early return.
\<close>

definition members_after :: "env \<Rightarrow> request \<Rightarrow> member list \<Rightarrow> member list" where
  "members_after e rq members =
     (case saveQuickRelation e rq members of Inl err \<Rightarrow> members | Inr list \<Rightarrow> list)"

subsection \<open>Properties of a graph\<close>

text \<open>Some member with id \<open>i\<close> holds the relation \<open>r\<close>.\<close>

definition holds :: "member list \<Rightarrow> string \<Rightarrow> relation \<Rightarrow> bool" where
  "holds list i r = (\<exists>m \<in> set list. id_m m = i \<and> r \<in> set (relations m))"

text \<open>Every relation \<open>(R, B)\<close> on a member \<open>A\<close> is answered by \<open>(reciprocal R, A)\<close> on \<open>B\<close>.\<close>

definition reciprocity :: "member list \<Rightarrow> bool" where
  "reciprocity list =
     (\<forall>a \<in> set list. \<forall>r \<in> set (relations a).
        holds list (targetId r) \<lparr>rel_type = reciprocal (rel_type r), targetId = id_m a\<rparr>)"

text \<open>No member holds a relation that targets its own id.\<close>

definition no_self_relation :: "member list \<Rightarrow> bool" where
  "no_self_relation list =
     list_all (\<lambda>m. list_all (\<lambda>r. targetId r \<noteq> id_m m) (relations m)) list"

text \<open>No relations list holds the same \<open>(type, targetId)\<close> pair twice.\<close>

definition no_duplicate_relation :: "member list \<Rightarrow> bool" where
  "no_duplicate_relation list = (\<forall>m \<in> set list. distinct (relations m))"

text \<open>
  The pair \<open>id1 \<rightarrow> id2\<close> of type \<open>ty\<close> needs no push: a member is missing, or both
  directions are already in place.
\<close>

definition linked :: "member list \<Rightarrow> string \<Rightarrow> string \<Rightarrow> string \<Rightarrow> bool" where
  "linked list id1 id2 ty =
     (id1 \<in> id_m ` set list \<and> id2 \<in> id_m ` set list \<longrightarrow>
        \<lparr>rel_type = ty, targetId = id2\<rparr> \<in> set (relationsOf list id1) \<and>
        \<lparr>rel_type = reciprocal ty, targetId = id1\<rparr> \<in> set (relationsOf list id2))"

text \<open>The same members in the same order, each relations array only extended at its end.\<close>

definition grows :: "member list \<Rightarrow> member list \<Rightarrow> bool" where
  "grows list list' =
     (map id_m list' = map id_m list \<and>
      (\<forall>i. \<exists>ys. relationsOf list' i = relationsOf list i @ ys))"

section \<open>Import Sanitizer\<close>

subsection \<open>Decoded JSON\<close>

text \<open>
  What \<^verbatim>\<open>JSON.parse\<close> returns. The sanitizer only asks a number for its type and its
  truthiness, so an integer stands for it. An object is the list of its own properties,
  each key once.
\<close>

datatype json =
    JNull
  | JBool bool
  | JNum int
  | JStr string
  | JArr "json list"
  | JObj "(string \<times> json) list"

text \<open>A JavaScript value read from decoded JSON: \<open>None\<close> is \<^verbatim>\<open>undefined\<close>.\<close>

type_synonym jsvalue = "json option"

fun typeof :: "jsvalue \<Rightarrow> string" where
  "typeof None = ''undefined''"
| "typeof (Some JNull) = ''object''"
| "typeof (Some (JBool b)) = ''boolean''"
| "typeof (Some (JNum n)) = ''number''"
| "typeof (Some (JStr s)) = ''string''"
| "typeof (Some (JArr xs)) = ''object''"
| "typeof (Some (JObj kvs)) = ''object''"

fun truthy :: "jsvalue \<Rightarrow> bool" where
  "truthy None = False"
| "truthy (Some JNull) = False"
| "truthy (Some (JBool b)) = b"
| "truthy (Some (JNum n)) = (n \<noteq> 0)"
| "truthy (Some (JStr s)) = (s \<noteq> [])"
| "truthy (Some (JArr xs)) = True"
| "truthy (Some (JObj kvs)) = True"

fun isArray :: "jsvalue \<Rightarrow> bool" where
  "isArray (Some (JArr xs)) = True"
| "isArray _ = False"

text \<open>The elements a \<^verbatim>\<open>for ... of\<close> over an array visits.\<close>

fun elements :: "jsvalue \<Rightarrow> json list" where
  "elements (Some (JArr xs)) = xs"
| "elements _ = []"

text \<open>
  Reading one of the properties \<^verbatim>\<open>members\<close>, \<^verbatim>\<open>id\<close>, \<^verbatim>\<open>name\<close>, \<^verbatim>\<open>dob\<close>, \<^verbatim>\<open>email\<close>, \<^verbatim>\<open>photo\<close>,
  \<^verbatim>\<open>relations\<close>, \<^verbatim>\<open>type\<close>, \<^verbatim>\<open>targetId\<close> of a value that passed the \<^verbatim>\<open>typeof v === 'object'\<close>
  test: an array has none of them.
\<close>

fun getProp :: "json \<Rightarrow> string \<Rightarrow> jsvalue" where
  "getProp (JObj kvs) k = map_of kvs k"
| "getProp _ k = None"

text \<open>\<^verbatim>\<open>typeof v === 'string' ? v : undefined\<close>\<close>

fun stringOrUndefined :: "jsvalue \<Rightarrow> string option" where
  "stringOrUndefined (Some (JStr s)) = Some s"
| "stringOrUndefined _ = None"

subsection \<open>\<^verbatim>\<open>normalizeImportedFamily\<close>\<close>

text \<open>The object a relation entry is mapped to.\<close>

definition toRelation :: "json \<Rightarrow> relation" where
  "toRelation r =
     \<lparr>rel_type = (case stringOrUndefined (getProp r ''type'') of Some t \<Rightarrow> t | None \<Rightarrow> ''other''),
      targetId = (case stringOrUndefined (getProp r ''targetId'') of Some t \<Rightarrow> t | None \<Rightarrow> [])\<rparr>"

definition sanitizeRelations :: "string \<Rightarrow> jsvalue \<Rightarrow> relation list" where
  "sanitizeRelations ident relationsRaw =
     (if isArray relationsRaw
      then filter (\<lambda>r. targetId r \<noteq> [] \<and> targetId r \<noteq> ident)
             (map toRelation
                (filter (\<lambda>r. truthy (Some r) \<and> typeof (Some r) = ''object'')
                   (elements relationsRaw)))
      else [])"

text \<open>The object pushed onto \<^verbatim>\<open>sanitized\<close> for an item that passed the checks.\<close>

definition sanitizedMember :: "string \<Rightarrow> string \<Rightarrow> json \<Rightarrow> member" where
  "sanitizedMember ident nm item =
     \<lparr>id_m = ident, name = trim nm,
      dob = stringOrUndefined (getProp item ''dob''),
      email = stringOrUndefined (getProp item ''email''),
      photo = stringOrUndefined (getProp item ''photo''),
      sex = None,
      relations = sanitizeRelations ident (getProp item ''relations'')\<rparr>"

text \<open>The \<^verbatim>\<open>for (const item of rawList)\<close> loop with its two accumulators.\<close>

fun sanitizeItems :: "json list \<Rightarrow> string set \<Rightarrow> member list \<Rightarrow> member list" where
  "sanitizeItems [] seen sanitized = sanitized"
| "sanitizeItems (item # rest) seen sanitized =
     (if \<not> truthy (Some item) \<or> typeof (Some item) \<noteq> ''object''
      then sanitizeItems rest seen sanitized
      else
        (case stringOrUndefined (getProp item ''id'') of
           None \<Rightarrow> sanitizeItems rest seen sanitized
         | Some ident \<Rightarrow>
             if trim ident = [] then sanitizeItems rest seen sanitized
             else
               (case stringOrUndefined (getProp item ''name'') of
                  None \<Rightarrow> sanitizeItems rest seen sanitized
                | Some nm \<Rightarrow>
                    if trim nm = [] then sanitizeItems rest seen sanitized
                    else if ident \<in> seen then sanitizeItems rest seen sanitized
                    else sanitizeItems rest (insert ident seen)
                           (sanitized @ [sanitizedMember ident nm item]))))"

text \<open>The second pass: relations that reference missing members are dropped.\<close>

definition dropDangling :: "member list \<Rightarrow> member list" where
  "dropDangling sanitized =
     (let idSet = set (map id_m sanitized)
      in map (\<lambda>m. m\<lparr>relations := filter (\<lambda>r. targetId r \<in> idSet) (relations m)\<rparr>) sanitized)"

text \<open>\<open>None\<close> is the \<^verbatim>\<open>null\<close> the caller reports as an invalid format.\<close>

definition normalizeImportedFamily :: "json \<Rightarrow> member list option" where
  "normalizeImportedFamily data =
     (let rawList =
            (if isArray (Some data) then Some data
             else if truthy (Some data) \<and> typeof (Some data) = ''object''
                     \<and> isArray (getProp data ''members'')
                  then getProp data ''members''
                  else Some (JArr []))
      in if \<not> isArray rawList then None
         else
           let sanitized = sanitizeItems (elements rawList) {} []
           in if length sanitized = 0 then Some [] else Some (dropDangling sanitized))"

subsection \<open>The per-item rule in words\<close>

text \<open>The id and name strings of an item; empty when the property is not a string.\<close>

definition item_id :: "json \<Rightarrow> string" where
  "item_id item = (case stringOrUndefined (getProp item ''id'') of Some s \<Rightarrow> s | None \<Rightarrow> [])"

definition item_name :: "json \<Rightarrow> string" where
  "item_name item = (case stringOrUndefined (getProp item ''name'') of Some s \<Rightarrow> s | None \<Rightarrow> [])"

fun isObject :: "json \<Rightarrow> bool" where
  "isObject (JObj kvs) = True"
| "isObject _ = False"

text \<open>An object with a non-empty string id and a non-empty string name.\<close>

definition nonEmptyIdAndName :: "json \<Rightarrow> bool" where
  "nonEmptyIdAndName item =
     (isObject item \<and>
      (case stringOrUndefined (getProp item ''id'') of Some s \<Rightarrow> s \<noteq> [] | None \<Rightarrow> False) \<and>
      (case stringOrUndefined (getProp item ''name'') of Some s \<Rightarrow> s \<noteq> [] | None \<Rightarrow> False))"

text \<open>An object whose string id and string name are not empty once trimmed.\<close>

definition nonBlankIdAndName :: "json \<Rightarrow> bool" where
  "nonBlankIdAndName item =
     (isObject item \<and>
      (case stringOrUndefined (getProp item ''id'') of Some s \<Rightarrow> trim s \<noteq> [] | None \<Rightarrow> False) \<and>
      (case stringOrUndefined (getProp item ''name'') of Some s \<Rightarrow> trim s \<noteq> [] | None \<Rightarrow> False))"

section \<open>Example graphs, requests and exports\<close>

text \<open>A member with only id, name and relations, and a relation.\<close>

definition person :: "string \<Rightarrow> string \<Rightarrow> relation list \<Rightarrow> member" where
  "person i n rs =
     \<lparr>id_m = i, name = n, dob = None, email = None, photo = None, sex = None, relations = rs\<rparr>"

definition edge :: "string \<Rightarrow> string \<Rightarrow> relation" where
  "edge ty i = \<lparr>rel_type = ty, targetId = i\<rparr>"

text \<open>A logged-in user at clock time \<open>t\<close>, with 7 drawn as the random part of a new id.\<close>

definition session :: "nat \<Rightarrow> env" where
  "session t = \<lparr>userKey = Some ''user'', now = t, rand = 7\<rparr>"

text \<open>The open modal, with an existing member picked or a new name typed.\<close>

definition pickExisting :: "string \<Rightarrow> quick_type \<Rightarrow> string \<Rightarrow> request" where
  "pickExisting source ty target =
     \<lparr>modal_open = True, sourceId = Some source, modal_type = Some ty,
      useNewTarget = False, newTargetName = [], selectedTargetId = Some target\<rparr>"

definition createNew :: "string \<Rightarrow> quick_type \<Rightarrow> string \<Rightarrow> request" where
  "createNew source ty nm =
     \<lparr>modal_open = True, sourceId = Some source, modal_type = Some ty,
      useNewTarget = True, newTargetName = nm, selectedTargetId = None\<rparr>"

text \<open>
  Two spouses; one member with two spouses; one member with a spouse and a partner relation
  to the same member; a parent of two with an unrelated fourth member.
\<close>

definition couple :: "member list" where
  "couple = [person ''1'' ''Ann'' [edge ''spouse'' ''2''], person ''2'' ''Bob'' [edge ''spouse'' ''1'']]"

definition trio :: "member list" where
  "trio = [person ''1'' ''Ann'' [edge ''spouse'' ''2'', edge ''spouse'' ''3''],
           person ''2'' ''Bob'' [edge ''spouse'' ''1''],
           person ''3'' ''Cy'' [edge ''spouse'' ''1'']]"

definition twoBonds :: "member list" where
  "twoBonds = [person ''1'' ''Ann'' [edge ''spouse'' ''2'', edge ''partner'' ''2''],
               person ''2'' ''Bob'' [edge ''spouse'' ''1'', edge ''partner'' ''1'']]"

definition family :: "member list" where
  "family = [person ''1'' ''Ann'' [edge ''child'' ''2'', edge ''child'' ''3''],
             person ''2'' ''Dan'' [edge ''parent'' ''1''],
             person ''3'' ''Eve'' [edge ''parent'' ''1''],
             person ''4'' ''Bob'' []]"

text \<open>Decoded exports and items.\<close>

definition exportWithDangling :: json where
  "exportWithDangling =
     JObj [(''members'',
        JArr [JObj [(''id'', JStr ''a''), (''name'', JStr ''A''),
                    (''relations'', JArr [JObj [(''type'', JStr ''child''), (''targetId'', JStr ''missing'')],
                                          JObj [(''type'', JNum 3), (''targetId'', JStr ''b'')]])],
              JNum 1,
              JObj [(''id'', JStr ''b''), (''name'', JStr '' B ''), (''relations'', JArr [])],
              JObj [(''id'', JStr ''a''), (''name'', JStr ''Again'')]])]"

definition firstItem :: json where
  "firstItem = JObj [(''id'', JStr ''a''), (''name'', JStr ''A'')]"

definition numberTypedEntry :: json where
  "numberTypedEntry = JObj [(''type'', JNum 3), (''targetId'', JStr ''a'')]"

definition secondItem :: json where
  "secondItem =
     JObj [(''id'', JStr ''b''), (''name'', JStr '' B ''),
           (''relations'', JArr [numberTypedEntry])]"

definition blankIdItem :: json where
  "blankIdItem = JObj [(''id'', JStr '' ''), (''name'', JStr ''A'')]"

section \<open>Lemmas about the Relation Mutator\<close>

subsection \<open>Lookup and push\<close>

lemma find_member_None: "find_member l i = None \<longleftrightarrow> i \<notin> id_m ` set l"
  by (auto simp: find_member_def find_None_iff)

lemma find_member_Some: "find_member l i = Some m \<Longrightarrow> m \<in> set l \<and> id_m m = i"
  by (auto simp: find_member_def find_Some_iff)

lemma relationsOf_absent: "i \<notin> id_m ` set l \<Longrightarrow> relationsOf l i = []"
  using find_member_None [of l i] by (simp add: relationsOf_def)

lemma relationsOf_holds: "r \<in> set (relationsOf l i) \<Longrightarrow> holds l i r"
proof (cases "find_member l i")
  case None
  assume "r \<in> set (relationsOf l i)"
  with None show ?thesis by (simp add: relationsOf_def)
next
  case (Some m)
  assume "r \<in> set (relationsOf l i)"
  with Some find_member_Some [OF Some] show ?thesis
    by (auto simp: relationsOf_def holds_def)
qed

lemma relationsOf_Cons:
  "relationsOf (m # ms) x = (if id_m m = x then relations m else relationsOf ms x)"
  by (simp add: relationsOf_def find_member_def)

lemma ids_push: "map id_m (push_relation i r l) = map id_m l"
  by (induction l) auto

lemma set_ids_push: "id_m ` set (push_relation i r l) = id_m ` set l"
  using ids_push [of i r l] by (metis set_map)

lemma relationsOf_push:
  "relationsOf (push_relation i r l) x =
     (if x = i \<and> i \<in> id_m ` set l then relationsOf l x @ [r] else relationsOf l x)"
  by (induction l) (auto simp: relationsOf_Cons)

lemma push_absent: "i \<notin> id_m ` set l \<Longrightarrow> push_relation i r l = l"
  by (induction l) auto

lemma set_push:
  "m' \<in> set (push_relation i r l) \<Longrightarrow>
     m' \<in> set l \<or> (i \<in> id_m ` set l \<and> id_m m' = i \<and> relations m' = relationsOf l i @ [r])"
  by (induction l) (auto simp: relationsOf_Cons split: if_splits)

lemma holds_push: "holds l i q \<Longrightarrow> holds (push_relation j r l) i q"
  unfolding holds_def by (induction l) auto

lemma has_relation_iff:
  "has_relation rels i ty \<longleftrightarrow> \<lparr>rel_type = ty, targetId = i\<rparr> \<in> set rels"
proof
  assume "has_relation rels i ty"
  then obtain r where r: "r \<in> set rels" "targetId r = i" "rel_type r = ty"
    by (auto simp: has_relation_def)
  have "r = \<lparr>rel_type = rel_type r, targetId = targetId r\<rparr>" by simp
  with r have "r = \<lparr>rel_type = ty, targetId = i\<rparr>" by simp
  with r show "\<lparr>rel_type = ty, targetId = i\<rparr> \<in> set rels" by simp
next
  assume "\<lparr>rel_type = ty, targetId = i\<rparr> \<in> set rels"
  then show "has_relation rels i ty" by (force simp: has_relation_def)
qed

lemma addRelationPair_alt:
  "addRelationPair l a b t =
     (if a \<in> id_m ` set l \<and> b \<in> id_m ` set l
      then let l1 = (if \<lparr>rel_type = t, targetId = b\<rparr> \<in> set (relationsOf l a) then l
                     else push_relation a \<lparr>rel_type = t, targetId = b\<rparr> l)
           in if \<lparr>rel_type = reciprocal t, targetId = a\<rparr> \<in> set (relationsOf l1 b) then l1
              else push_relation b \<lparr>rel_type = reciprocal t, targetId = a\<rparr> l1
      else l)"
proof (cases "find_member l a")
  case None
  then show ?thesis using find_member_None [of l a] by (simp add: addRelationPair_def)
next
  case (Some m1)
  note m1 = this
  show ?thesis
  proof (cases "find_member l b")
    case None
    then show ?thesis using m1 find_member_None [of l b] by (simp add: addRelationPair_def)
  next
    case (Some m2)
    have a: "a \<in> id_m ` set l" and b: "b \<in> id_m ` set l"
      using m1 Some find_member_None [of l a] find_member_None [of l b] by auto
    have r: "relations m1 = relationsOf l a" using m1 by (simp add: relationsOf_def)
    show ?thesis
      using m1 Some a b by (simp add: addRelationPair_def has_relation_iff r Let_def)
  qed
qed

lemma ids_addRelationPair: "map id_m (addRelationPair l a b t) = map id_m l"
  by (simp add: addRelationPair_alt Let_def ids_push)

lemma set_ids_addRelationPair: "id_m ` set (addRelationPair l a b t) = id_m ` set l"
  using ids_addRelationPair [of l a b t] by (metis set_map)

text \<open>What a call appends to the relations found for an id.\<close>

lemma relationsOf_addRelationPair:
  "\<exists>ys. relationsOf (addRelationPair l a b t) x = relationsOf l x @ ys \<and>
        (\<forall>y \<in> set ys. (x = a \<and> y = \<lparr>rel_type = t, targetId = b\<rparr>) \<or>
                       (x = b \<and> y = \<lparr>rel_type = reciprocal t, targetId = a\<rparr>))"
  by (auto simp: addRelationPair_alt Let_def relationsOf_push set_ids_push)

lemma grows_refl: "grows l l"
  by (simp add: grows_def)

lemma grows_trans: "grows l l' \<Longrightarrow> grows l' l'' \<Longrightarrow> grows l l''"
  unfolding grows_def by (metis append.assoc)

lemma grows_addRelationPair: "grows l (addRelationPair l a b t)"
  unfolding grows_def using relationsOf_addRelationPair [of l a b t] ids_addRelationPair [of l a b t]
  by blast

lemma grows_ids: "grows l l' \<Longrightarrow> id_m ` set l' = id_m ` set l"
  unfolding grows_def by (metis set_map)

lemma grows_mem: "grows l l' \<Longrightarrow> r \<in> set (relationsOf l i) \<Longrightarrow> r \<in> set (relationsOf l' i)"
  unfolding grows_def by (metis Un_iff set_append)

lemma linked_grows: "grows l l' \<Longrightarrow> linked l a b t \<Longrightarrow> linked l' a b t"
  unfolding linked_def using grows_ids [of l l'] grows_mem [of l l'] by auto

lemma linked_addRelationPair: "linked (addRelationPair l a b t) a b t"
  unfolding linked_def
  by (auto simp: addRelationPair_alt Let_def relationsOf_push set_ids_push)

lemma addRelationPair_linked: "linked l a b t \<Longrightarrow> addRelationPair l a b t = l"
  unfolding linked_def by (auto simp: addRelationPair_alt Let_def)

lemma addRelationPair_idem:
  "addRelationPair (addRelationPair l a b t) a b t = addRelationPair l a b t"
  by (rule addRelationPair_linked) (rule linked_addRelationPair)

subsection \<open>Duplicate pairs\<close>

lemma relationsOf_distinct: "no_duplicate_relation l \<Longrightarrow> distinct (relationsOf l i)"
proof (cases "find_member l i")
  case None
  then show ?thesis by (simp add: relationsOf_def)
next
  case (Some m)
  assume "no_duplicate_relation l"
  with find_member_Some [OF Some] Some show ?thesis
    by (simp add: relationsOf_def no_duplicate_relation_def)
qed

lemma no_duplicate_push:
  assumes "no_duplicate_relation l" and "r \<notin> set (relationsOf l i)"
  shows "no_duplicate_relation (push_relation i r l)"
  unfolding no_duplicate_relation_def
proof
  fix m' assume "m' \<in> set (push_relation i r l)"
  then consider "m' \<in> set l" | "relations m' = relationsOf l i @ [r]"
    using set_push by blast
  then show "distinct (relations m')"
  proof cases
    case 1
    with assms(1) show ?thesis by (simp add: no_duplicate_relation_def)
  next
    case 2
    with assms relationsOf_distinct [of l i] show ?thesis by simp
  qed
qed

lemma no_duplicate_addRelationPair:
  "no_duplicate_relation l \<Longrightarrow> no_duplicate_relation (addRelationPair l a b t)"
  by (simp add: addRelationPair_alt Let_def no_duplicate_push)

lemma foldl_invariant:
  assumes "P l" and "\<And>l c. P l \<Longrightarrow> P (f l c)"
  shows "P (foldl f l cs)"
  using assms(1) by (induction cs arbitrary: l) (simp_all add: assms(2))

lemma no_duplicate_linkMembers:
  "no_duplicate_relation l \<Longrightarrow> no_duplicate_relation (linkMembers l s t ty)"
  unfolding linkMembers_def Let_def
  by (cases ty)
     (auto simp: no_duplicate_addRelationPair split: option.splits
           intro!: foldl_invariant [where P = no_duplicate_relation])

lemma saveQuickRelation_Inr:
  assumes "saveQuickRelation e rq ms = Inr out"
  obtains source ty target where
    "sourceId rq = Some source" "modal_type rq = Some ty" "finalTarget e rq = Some target"
    "target \<noteq> source" "target \<noteq> []"
    "out = linkMembers (if useNewTarget rq then ms @ [newMember e rq] else ms) source target ty"
  using assms unfolding saveQuickRelation_def Let_def
  by (auto split: option.splits if_splits)

lemma no_duplicate_snoc:
  "no_duplicate_relation l \<Longrightarrow> no_duplicate_relation (l @ [newMember e rq])"
  by (simp add: no_duplicate_relation_def newMember_def)

text \<open>
  Claim C9. If no relations list of the graph holds the same \<open>(type, targetId)\<close> pair twice,
  none does in the \<^verbatim>\<open>members\<close> state after \<^verbatim>\<open>saveQuickRelation\<close>.
\<close>

theorem saveQuickRelation_keeps_no_duplicate:
  assumes "no_duplicate_relation ms"
  shows "no_duplicate_relation (members_after e rq ms)"
proof (cases "saveQuickRelation e rq ms")
  case (Inl err)
  with assms show ?thesis by (simp add: members_after_def)
next
  case (Inr out)
  then obtain source ty target where
    "out = linkMembers (if useNewTarget rq then ms @ [newMember e rq] else ms) source target ty"
    by (rule saveQuickRelation_Inr)
  with assms Inr show ?thesis
    by (simp add: members_after_def no_duplicate_linkMembers no_duplicate_snoc)
qed

text \<open>
  Making Bob the spouse of Ann once more adds no second spouse pair.
\<close>

theorem saveQuickRelation_keeps_no_duplicate_witness:
  "no_duplicate_relation couple \<and>
   no_duplicate_relation (members_after (session 5) (pickExisting ''1'' Spouse ''2'') couple)"
proof -
  have h: "no_duplicate_relation couple" by code_simp
  from saveQuickRelation_keeps_no_duplicate [OF h] h show ?thesis by simp
qed

subsection \<open>Reciprocity\<close>

lemma set_push_origin:
  "m' \<in> set (push_relation i q l) \<Longrightarrow>
     \<exists>m \<in> set l. id_m m' = id_m m \<and>
        set (relations m') \<subseteq> set (relations m) \<union> (if id_m m = i then {q} else {})"
  by (induction l) (auto split: if_splits)

lemma set_addRelationPair_origin:
  assumes "m' \<in> set (addRelationPair l a b t)"
  shows "\<exists>m \<in> set l. id_m m' = id_m m \<and>
           (\<forall>r \<in> set (relations m').
              r \<in> set (relations m) \<or>
              (id_m m = a \<and> a \<in> id_m ` set l \<and> b \<in> id_m ` set l \<and> r = \<lparr>rel_type = t, targetId = b\<rparr>) \<or>
              (id_m m = b \<and> a \<in> id_m ` set l \<and> b \<in> id_m ` set l \<and> r = \<lparr>rel_type = reciprocal t, targetId = a\<rparr>))"
proof (cases "a \<in> id_m ` set l \<and> b \<in> id_m ` set l")
  case False
  with assms show ?thesis by (auto simp: addRelationPair_alt)
next
  case True
  let ?r1 = "\<lparr>rel_type = t, targetId = b\<rparr>"
  let ?r2 = "\<lparr>rel_type = reciprocal t, targetId = a\<rparr>"
  define l1 where "l1 = (if ?r1 \<in> set (relationsOf l a) then l else push_relation a ?r1 l)"
  have out: "addRelationPair l a b t =
               (if ?r2 \<in> set (relationsOf l1 b) then l1 else push_relation b ?r2 l1)"
    using True by (simp add: addRelationPair_alt l1_def Let_def)
  have step1: "\<exists>m \<in> set l. id_m x = id_m m \<and>
                 set (relations x) \<subseteq> set (relations m) \<union> (if id_m m = a then {?r1} else {})"
    if "x \<in> set l1" for x
    using that set_push_origin [of x a ?r1 l] by (auto simp: l1_def split: if_splits)
  have "\<exists>x \<in> set l1. id_m m' = id_m x \<and>
          set (relations m') \<subseteq> set (relations x) \<union> (if id_m x = b then {?r2} else {})"
    using assms set_push_origin [of m' b ?r2 l1] unfolding out by (auto split: if_splits)
  then obtain x where x: "x \<in> set l1" "id_m m' = id_m x"
      "set (relations m') \<subseteq> set (relations x) \<union> (if id_m x = b then {?r2} else {})"
    by blast
  from step1 [OF x(1)] obtain m where m: "m \<in> set l" "id_m x = id_m m"
      "set (relations x) \<subseteq> set (relations m) \<union> (if id_m m = a then {?r1} else {})"
    by blast
  show ?thesis
  proof (rule bexI [OF _ m(1)], intro conjI ballI)
    show "id_m m' = id_m m" using x(2) m(2) by simp
  next
    fix r assume "r \<in> set (relations m')"
    with x(3) m(2,3) True
    show "r \<in> set (relations m) \<or>
          (id_m m = a \<and> a \<in> id_m ` set l \<and> b \<in> id_m ` set l \<and> r = ?r1) \<or>
          (id_m m = b \<and> a \<in> id_m ` set l \<and> b \<in> id_m ` set l \<and> r = ?r2)"
      by (auto split: if_splits)
  qed
qed

lemma holds_addRelationPair: "holds l i q \<Longrightarrow> holds (addRelationPair l a b t) i q"
  by (simp add: addRelationPair_alt Let_def holds_push)

lemma reciprocity_addRelationPair:
  assumes inv: "reciprocity l" and invol: "reciprocal (reciprocal t) = t"
  shows "reciprocity (addRelationPair l a b t)"
  unfolding reciprocity_def
proof (intro ballI)
  let ?l' = "addRelationPair l a b t"
  fix m' r assume m': "m' \<in> set ?l'" and r: "r \<in> set (relations m')"
  from set_addRelationPair_origin [OF m'] r obtain m where m: "m \<in> set l" "id_m m' = id_m m"
    and cases: "r \<in> set (relations m) \<or>
       (id_m m = a \<and> a \<in> id_m ` set l \<and> b \<in> id_m ` set l \<and> r = \<lparr>rel_type = t, targetId = b\<rparr>) \<or>
       (id_m m = b \<and> a \<in> id_m ` set l \<and> b \<in> id_m ` set l \<and> r = \<lparr>rel_type = reciprocal t, targetId = a\<rparr>)"
    by blast
  have post: "a \<in> id_m ` set l \<Longrightarrow> b \<in> id_m ` set l \<Longrightarrow>
      holds ?l' a \<lparr>rel_type = t, targetId = b\<rparr> \<and>
      holds ?l' b \<lparr>rel_type = reciprocal t, targetId = a\<rparr>"
    using linked_addRelationPair [of l a b t] set_ids_addRelationPair [of l a b t]
    by (simp add: linked_def relationsOf_holds)
  from cases show "holds ?l' (targetId r) \<lparr>rel_type = reciprocal (rel_type r), targetId = id_m m'\<rparr>"
  proof (elim disjE conjE)
    assume "r \<in> set (relations m)"
    with inv m show ?thesis
      by (auto simp: reciprocity_def intro: holds_addRelationPair)
  next
    assume "id_m m = a" "a \<in> id_m ` set l" "b \<in> id_m ` set l" "r = \<lparr>rel_type = t, targetId = b\<rparr>"
    with post m show ?thesis by simp
  next
    assume "id_m m = b" "a \<in> id_m ` set l" "b \<in> id_m ` set l"
           "r = \<lparr>rel_type = reciprocal t, targetId = a\<rparr>"
    with post m invol show ?thesis by simp
  qed
qed

lemma reciprocal_twice:
  "reciprocal (reciprocal ''child'') = ''child''"
  "reciprocal (reciprocal ''spouse'') = ''spouse''"
  "reciprocal (reciprocal ''sibling'') = ''sibling''"
  by (simp_all add: reciprocal_def)

lemma reciprocity_linkMembers:
  "reciprocity l \<Longrightarrow> reciprocity (linkMembers l s t ty)"
  unfolding linkMembers_def Let_def
  by (cases ty)
     (auto simp: reciprocity_addRelationPair reciprocal_twice
           split: option.splits intro!: foldl_invariant [where P = reciprocity])

lemma reciprocity_snoc:
  "reciprocity l \<Longrightarrow> reciprocity (l @ [newMember e rq])"
  by (auto simp: reciprocity_def holds_def newMember_def)

text \<open>
  Claim C1. If every relation \<open>(R, B)\<close> on every member \<open>A\<close> of the graph is answered by
  \<open>(reciprocal R, A)\<close> on a member \<open>B\<close>, the same holds of the \<^verbatim>\<open>members\<close> state after
  \<^verbatim>\<open>saveQuickRelation\<close>, whatever the request, whether it saved or returned early.
  \<^verbatim>\<open>reciprocal\<close> maps parent to child, child to parent, spouse, partner and sibling to
  themselves, and every other type to other.
\<close>

theorem saveQuickRelation_keeps_reciprocity:
  assumes "reciprocity ms"
  shows "reciprocity (members_after e rq ms) \<and>
         reciprocal ''parent'' = ''child'' \<and> reciprocal ''child'' = ''parent'' \<and>
         reciprocal ''spouse'' = ''spouse'' \<and> reciprocal ''partner'' = ''partner'' \<and>
         reciprocal ''sibling'' = ''sibling'' \<and>
         (ty \<notin> {''parent'', ''child'', ''spouse'', ''partner'', ''sibling''} \<longrightarrow>
            reciprocal ty = ''other'')"
proof -
  have "reciprocity (members_after e rq ms)"
  proof (cases "saveQuickRelation e rq ms")
    case (Inl err)
    with assms show ?thesis by (simp add: members_after_def)
  next
    case (Inr out)
    then obtain source ty target where
      "out = linkMembers (if useNewTarget rq then ms @ [newMember e rq] else ms) source target ty"
      by (rule saveQuickRelation_Inr)
    with assms Inr show ?thesis
      by (simp add: members_after_def reciprocity_linkMembers reciprocity_snoc)
  qed
  then show ?thesis by (simp add: reciprocal_def)
qed

text \<open>
  The invariant at a concrete edit: a child is created for Ann, whose spouse is Bob.
\<close>

theorem saveQuickRelation_keeps_reciprocity_witness:
  "reciprocity couple \<and>
   reciprocity (members_after (session 5) (createNew ''1'' Child ''Kid'') couple) \<and>
   reciprocal ''cousin'' = ''other''"
proof -
  have h: "reciprocity couple" by code_simp
  from saveQuickRelation_keeps_reciprocity [OF h, of "session 5" "createNew ''1'' Child ''Kid''" "''cousin''"] h
  show ?thesis by simp
qed

subsection \<open>Applying the same links again\<close>

lemma find_append_others:
  "\<forall>y \<in> set ys. \<not> P y \<Longrightarrow> List.find P (xs @ ys) = List.find P xs"
  by (induction xs) (auto simp: find_None_iff)

lemma filter_append_others:
  "\<forall>y \<in> set ys. \<not> P y \<Longrightarrow> filter P (xs @ ys) = filter P xs"
  by simp

text \<open>A call for a child pair leaves the spouses and partners found for any id as they were.\<close>

lemma find_spouse_addRelationPair_child:
  "List.find isSpouseOrPartner (relationsOf (addRelationPair l a b ''child'') x) =
   List.find isSpouseOrPartner (relationsOf l x)"
proof -
  obtain ys where ys: "relationsOf (addRelationPair l a b ''child'') x = relationsOf l x @ ys"
    "\<forall>y \<in> set ys. (x = a \<and> y = \<lparr>rel_type = ''child'', targetId = b\<rparr>) \<or>
                    (x = b \<and> y = \<lparr>rel_type = reciprocal ''child'', targetId = a\<rparr>)"
    using relationsOf_addRelationPair [of l a b "''child''" x] by blast
  have "\<forall>y \<in> set ys. \<not> isSpouseOrPartner y"
    using ys(2) by (auto simp: isSpouseOrPartner_def reciprocal_def)
  then show ?thesis unfolding ys(1) by (rule find_append_others)
qed

text \<open>A call for a child pair from \<open>a\<close> leaves the children found for any other id as they were.\<close>

lemma children_addRelationPair_child:
  assumes "x \<noteq> a"
  shows "filter (\<lambda>r. rel_type r = ''child'') (relationsOf (addRelationPair l a b ''child'') x) =
         filter (\<lambda>r. rel_type r = ''child'') (relationsOf l x)"
proof -
  obtain ys where ys: "relationsOf (addRelationPair l a b ''child'') x = relationsOf l x @ ys"
    "\<forall>y \<in> set ys. (x = a \<and> y = \<lparr>rel_type = ''child'', targetId = b\<rparr>) \<or>
                    (x = b \<and> y = \<lparr>rel_type = reciprocal ''child'', targetId = a\<rparr>)"
    using relationsOf_addRelationPair [of l a b "''child''" x] by blast
  have "\<forall>y \<in> set ys. \<not> rel_type y = ''child''"
    using ys(2) assms by (auto simp: reciprocal_def)
  then show ?thesis unfolding ys(1) by simp
qed

lemma grows_foldl:
  "grows l (foldl (\<lambda>l c. addRelationPair l t (targetId c) ty) l cs)"
proof (induction cs arbitrary: l)
  case Nil
  show ?case by (simp add: grows_refl)
next
  case (Cons c cs)
  show ?case
    using grows_trans [OF grows_addRelationPair Cons.IH] by simp
qed

lemma children_foldl:
  assumes "x \<noteq> t"
  shows "filter (\<lambda>r. rel_type r = ''child'')
           (relationsOf (foldl (\<lambda>l c. addRelationPair l t (targetId c) ''child'') l cs) x) =
         filter (\<lambda>r. rel_type r = ''child'') (relationsOf l x)"
  by (induction cs arbitrary: l) (simp_all add: children_addRelationPair_child [OF assms])

lemma linked_foldl:
  "c \<in> set cs \<Longrightarrow>
     linked (foldl (\<lambda>l c. addRelationPair l t (targetId c) ty) l cs) t (targetId c) ty"
proof (induction cs arbitrary: l)
  case Nil
  then show ?case by simp
next
  case (Cons d cs)
  show ?case
  proof (cases "c = d")
    case True
    have "linked (addRelationPair l t (targetId d) ty) t (targetId d) ty"
      by (rule linked_addRelationPair)
    then show ?thesis
      using True linked_grows [OF grows_foldl] by simp
  next
    case False
    with Cons show ?thesis by simp
  qed
qed

lemma foldl_linked:
  "\<forall>c \<in> set cs. linked l t (targetId c) ty \<Longrightarrow>
     foldl (\<lambda>l c. addRelationPair l t (targetId c) ty) l cs = l"
  by (induction cs) (simp_all add: addRelationPair_linked)

lemma linkMembers_Child:
  "linkMembers l s t Child =
     (case List.find isSpouseOrPartner (relationsOf (addRelationPair l s t ''child'') s) of
        None \<Rightarrow> addRelationPair l s t ''child''
      | Some sp \<Rightarrow> addRelationPair (addRelationPair l s t ''child'') (targetId sp) t ''child'')"
  by (simp add: linkMembers_def Let_def)

lemma linkMembers_Spouse:
  "linkMembers l s t Spouse =
     foldl (\<lambda>l c. addRelationPair l t (targetId c) ''child'') (addRelationPair l s t ''spouse'')
       (filter (\<lambda>r. rel_type r = ''child'') (relationsOf (addRelationPair l s t ''spouse'') s))"
  by (simp add: linkMembers_def Let_def)

lemma linkMembers_Sibling: "linkMembers l s t Sibling = addRelationPair l s t ''sibling''"
  by (simp add: linkMembers_def Let_def)

lemma grows_linkMembers_from_first:
  "grows (addRelationPair l s t (type_name ty)) (linkMembers l s t ty)"
proof (cases ty)
  case Child
  then show ?thesis
    by (simp add: linkMembers_Child grows_refl grows_addRelationPair split: option.splits)
next
  case Spouse
  then show ?thesis by (simp add: linkMembers_Spouse grows_foldl)
next
  case Sibling
  then show ?thesis by (simp add: linkMembers_Sibling grows_refl)
qed

lemma grows_linkMembers: "grows l (linkMembers l s t ty)"
  by (rule grows_trans [OF grows_addRelationPair grows_linkMembers_from_first])

lemma linkMembers_idem:
  assumes "s \<noteq> t"
  shows "linkMembers (linkMembers l s t ty) s t ty = linkMembers l s t ty"
proof (cases ty)
  case Sibling
  then show ?thesis by (simp add: linkMembers_Sibling addRelationPair_idem)
next
  case Child
  let ?l1 = "addRelationPair l s t ''child''"
  let ?out = "linkMembers l s t Child"
  have g: "grows ?l1 ?out"
    using grows_linkMembers_from_first [of l s t Child] by simp
  have again: "addRelationPair ?out s t ''child'' = ?out"
    by (rule addRelationPair_linked) (rule linked_grows [OF g linked_addRelationPair])
  have same: "List.find isSpouseOrPartner (relationsOf ?out s) =
              List.find isSpouseOrPartner (relationsOf ?l1 s)"
    by (simp add: linkMembers_Child find_spouse_addRelationPair_child split: option.splits)
  show ?thesis
  proof (cases "List.find isSpouseOrPartner (relationsOf ?l1 s)")
    case None
    then have "?out = ?l1" by (simp add: linkMembers_Child)
    with None Child show ?thesis
      by (simp add: linkMembers_Child addRelationPair_idem)
  next
    case (Some sp)
    then have out: "?out = addRelationPair ?l1 (targetId sp) t ''child''"
      by (simp add: linkMembers_Child)
    have "linkMembers ?out s t Child = addRelationPair ?out (targetId sp) t ''child''"
      using again same Some by (simp add: linkMembers_Child [of ?out])
    also have "\<dots> = ?out"
      unfolding out by (rule addRelationPair_idem)
    finally show ?thesis using Child by simp
  qed
next
  case Spouse
  let ?l1 = "addRelationPair l s t ''spouse''"
  let ?cs = "filter (\<lambda>r. rel_type r = ''child'') (relationsOf ?l1 s)"
  let ?out = "linkMembers l s t Spouse"
  have out: "?out = foldl (\<lambda>l c. addRelationPair l t (targetId c) ''child'') ?l1 ?cs"
    by (simp add: linkMembers_Spouse)
  have g: "grows ?l1 ?out" unfolding out by (rule grows_foldl)
  have again: "addRelationPair ?out s t ''spouse'' = ?out"
    by (rule addRelationPair_linked) (rule linked_grows [OF g linked_addRelationPair])
  have same: "filter (\<lambda>r. rel_type r = ''child'') (relationsOf ?out s) = ?cs"
    unfolding out by (rule children_foldl [OF assms])
  have "linkMembers ?out s t Spouse =
          foldl (\<lambda>l c. addRelationPair l t (targetId c) ''child'') ?out ?cs"
    using again same by (simp add: linkMembers_Spouse [of ?out])
  also have "\<dots> = ?out"
  proof (rule foldl_linked, rule ballI)
    fix c assume "c \<in> set ?cs"
    then show "linked ?out t (targetId c) ''child''"
      unfolding out by (rule linked_foldl)
  qed
  finally show ?thesis using Spouse by simp
qed

section \<open>The Relation Mutator: idempotence, validation, joint parenting\<close>

lemma relationsOf_snoc_new: "relationsOf (ms @ [newMember e rq]) x = relationsOf ms x"
  by (induction ms) (simp_all add: relationsOf_Cons relationsOf_def find_member_def newMember_def)

lemma saveQuickRelation_existing:
  assumes "\<not> useNewTarget rq" and "userKey e' = userKey e"
    and "saveQuickRelation e rq ms = Inr out"
  shows "\<exists>source ty target. source \<noteq> target \<and> out = linkMembers ms source target ty \<and>
           (\<forall>ms'. saveQuickRelation e' rq ms' = Inr (linkMembers ms' source target ty))"
proof -
  from assms(3) obtain source ty target where *:
    "sourceId rq = Some source" "modal_type rq = Some ty" "finalTarget e rq = Some target"
    "target \<noteq> source" "target \<noteq> []"
    "out = linkMembers (if useNewTarget rq then ms @ [newMember e rq] else ms) source target ty"
    by (rule saveQuickRelation_Inr)
  have guards: "modal_open rq" "source \<noteq> []" "\<not> falsy (userKey e)"
    using assms(3) * by (auto simp: saveQuickRelation_def split: if_splits)
  have again: "\<forall>ms'. saveQuickRelation e' rq ms' = Inr (linkMembers ms' source target ty)"
    using * guards assms(1,2) by (simp add: saveQuickRelation_def finalTarget_def)
  have "out = linkMembers ms source target ty" using *(6) assms(1) by simp
  with *(4) again show ?thesis by (intro exI [of _ source] exI [of _ ty] exI [of _ target]) simp
qed

lemma saveQuickRelation_existing_Inl:
  assumes "\<not> useNewTarget rq" and "userKey e' = userKey e"
    and "saveQuickRelation e rq ms = Inl err"
  shows "saveQuickRelation e' rq ms' = Inl err"
  using assms unfolding saveQuickRelation_def finalTarget_def Let_def
  by (auto split: option.splits if_splits)

text \<open>
  Claim C6, amended. A request that names an existing target is idempotent: applied again,
  by the same user, to the \<^verbatim>\<open>members\<close> state its first application left, it changes nothing.
\<close>

theorem existing_target_idempotent:
  assumes "\<not> useNewTarget rq" and "userKey e' = userKey e"
  shows "members_after e' rq (members_after e rq ms) = members_after e rq ms"
proof (cases "saveQuickRelation e rq ms")
  case (Inl err)
  from saveQuickRelation_existing_Inl [OF assms Inl, of ms] Inl
  show ?thesis by (simp add: members_after_def)
next
  case (Inr out)
  from saveQuickRelation_existing [OF assms Inr] obtain source ty target
    where st: "source \<noteq> target"
      and out: "out = linkMembers ms source target ty"
      and again: "\<forall>ms'. saveQuickRelation e' rq ms' = Inr (linkMembers ms' source target ty)"
    by blast
  show ?thesis
    using Inr again linkMembers_idem [OF st, of ms ty]
    by (simp add: members_after_def out)
qed

text \<open>
  Bob becomes the spouse of Ann, who has two children, twice over.
\<close>

theorem existing_target_idempotent_witness:
  "members_after (session 9) (pickExisting ''1'' Spouse ''4'')
     (members_after (session 5) (pickExisting ''1'' Spouse ''4'') family) =
   members_after (session 5) (pickExisting ''1'' Spouse ''4'') family"
proof -
  have 1: "\<not> useNewTarget (pickExisting ''1'' Spouse ''4'')" by (simp add: pickExisting_def)
  have 2: "userKey (session 9) = userKey (session 5)" by (simp add: session_def)
  show ?thesis using existing_target_idempotent [OF 1 2] .
qed

text \<open>
  For a request that creates its target the statement fails: each application pushes a new
  member, and after two of them member 1 has two children where one application gives one.
  Even when both applications generate the same id the list gains one more member.
\<close>

theorem existing_target_idempotent_counterexample:
  "set (relationsOf (members_after (session 6) (createNew ''1'' Child ''Kid'')
          (members_after (session 5) (createNew ''1'' Child ''Kid'') [person ''1'' ''Me'' []])) ''1'')
   \<noteq> set (relationsOf (members_after (session 5) (createNew ''1'' Child ''Kid'') [person ''1'' ''Me'' []]) ''1'') \<and>
   members_after (session 5) (createNew ''1'' Child ''Kid'')
     (members_after (session 5) (createNew ''1'' Child ''Kid'') [person ''1'' ''Me'' []])
   \<noteq> members_after (session 5) (createNew ''1'' Child ''Kid'') [person ''1'' ''Me'' []]"
  by code_simp

text \<open>
  Claim C4. A request with a blank new-member name, with no existing target selected, or
  whose target is its source returns early with an error, and the \<^verbatim>\<open>members\<close> state after it
  is the state before it.
\<close>

theorem failed_validation_mutates_nothing:
  assumes "(useNewTarget rq \<and> trim (newTargetName rq) = []) \<or>
           (\<not> useNewTarget rq \<and> falsy (selectedTargetId rq)) \<or>
           finalTarget e rq = sourceId rq"
  shows "isl (saveQuickRelation e rq ms) \<and> members_after e rq ms = ms"
proof -
  have "isl (saveQuickRelation e rq ms)"
  proof (cases "sourceId rq")
    case None
    then show ?thesis by (simp add: saveQuickRelation_def)
  next
    case source: (Some source)
    show ?thesis
    proof (cases "modal_type rq")
      case None
      with source show ?thesis by (simp add: saveQuickRelation_def)
    next
      case (Some ty)
      with source assms show ?thesis
        by (auto simp: saveQuickRelation_def finalTarget_def falsy_def Let_def
                 split: option.splits if_splits)
    qed
  qed
  then show ?thesis
    by (cases "saveQuickRelation e rq ms") (simp_all add: members_after_def)
qed

text \<open>
  A new member whose name is two spaces, no member picked, the source picked as its own
  target: each request is refused with its error, and the graph stays.
\<close>

theorem failed_validation_mutates_nothing_witness:
  "saveQuickRelation (session 5) (createNew ''1'' Child ''  '') couple = Inl NameRequired \<and>
   members_after (session 5) (createNew ''1'' Child ''  '') couple = couple \<and>
   saveQuickRelation (session 5) (pickExisting ''1'' Child []) couple = Inl SelectMember \<and>
   members_after (session 5) (pickExisting ''1'' Child []) couple = couple \<and>
   saveQuickRelation (session 5) (pickExisting ''1'' Child ''1'') couple = Inl CannotRelateSelf \<and>
   members_after (session 5) (pickExisting ''1'' Child ''1'') couple = couple"
proof -
  have blank: "useNewTarget (createNew ''1'' Child ''  '') \<and>
               trim (newTargetName (createNew ''1'' Child ''  '')) = []"
    by code_simp
  have none: "\<not> useNewTarget (pickExisting ''1'' Child []) \<and>
              falsy (selectedTargetId (pickExisting ''1'' Child []))"
    by code_simp
  have self: "finalTarget (session 5) (pickExisting ''1'' Child ''1'') =
              sourceId (pickExisting ''1'' Child ''1'')"
    by code_simp
  have errors:
    "saveQuickRelation (session 5) (createNew ''1'' Child ''  '') couple = Inl NameRequired"
    "saveQuickRelation (session 5) (pickExisting ''1'' Child []) couple = Inl SelectMember"
    "saveQuickRelation (session 5) (pickExisting ''1'' Child ''1'') couple = Inl CannotRelateSelf"
    by code_simp+
  from failed_validation_mutates_nothing [of "createNew ''1'' Child ''  ''" "session 5" couple]
       failed_validation_mutates_nothing [of "pickExisting ''1'' Child []" "session 5" couple]
       failed_validation_mutates_nothing [of "pickExisting ''1'' Child ''1''" "session 5" couple]
       blank none self errors
  show ?thesis by simp
qed

text \<open>
  Claim C5, amended. Take a saved edit with source \<open>S\<close> and target \<open>T\<close>, where \<open>T\<close> is a new
  member or an existing one. For a child edit: if the first spouse or partner relation in
  the relations of \<open>S\<close> targets a member \<open>M\<close>, then afterwards \<open>M\<close> holds \<open>(child, T)\<close> and \<open>T\<close>
  holds \<open>(parent, M)\<close>. For a spouse edit: for every relation \<open>(child, C)\<close> on \<open>S\<close> before the
  edit with \<open>C\<close> a member, afterwards \<open>T\<close> holds \<open>(child, C)\<close> and \<open>C\<close> holds \<open>(parent, T)\<close>.
  Relations are read the way the code finds them, on the first member with the id.
\<close>

theorem joint_parenting_first_spouse:
  assumes ok: "saveQuickRelation e rq ms = Inr out"
    and S: "sourceId rq = Some S" and T: "finalTarget e rq = Some T"
    and member_T: "useNewTarget rq \<or> T \<in> id_m ` set ms"
  shows "(modal_type rq = Some Child \<longrightarrow>
            (\<forall>sp. List.find isSpouseOrPartner (relationsOf ms S) = Some sp \<longrightarrow>
                  targetId sp \<in> id_m ` set ms \<longrightarrow>
                  \<lparr>rel_type = ''child'', targetId = T\<rparr> \<in> set (relationsOf out (targetId sp)) \<and>
                  \<lparr>rel_type = ''parent'', targetId = targetId sp\<rparr> \<in> set (relationsOf out T))) \<and>
         (modal_type rq = Some Spouse \<longrightarrow>
            (\<forall>c \<in> set (relationsOf ms S). rel_type c = ''child'' \<longrightarrow>
                  targetId c \<in> id_m ` set ms \<longrightarrow>
                  \<lparr>rel_type = ''child'', targetId = targetId c\<rparr> \<in> set (relationsOf out T) \<and>
                  \<lparr>rel_type = ''parent'', targetId = T\<rparr> \<in> set (relationsOf out (targetId c))))"
proof -
  define list where "list = (if useNewTarget rq then ms @ [newMember e rq] else ms)"
  from ok S T obtain ty where ty: "modal_type rq = Some ty"
    and out: "out = linkMembers list S T ty"
    unfolding list_def by (auto elim!: saveQuickRelation_Inr)
  have ids: "id_m ` set out = id_m ` set list"
    unfolding out by (rule grows_ids [OF grows_linkMembers])
  have sub: "id_m ` set ms \<subseteq> id_m ` set list" by (auto simp: list_def)
  have T_in: "T \<in> id_m ` set list"
    using member_T T by (auto simp: list_def finalTarget_def newMember_def)
  have rels: "relationsOf list x = relationsOf ms x" for x
    by (simp add: list_def relationsOf_snoc_new)
  have child: "\<lparr>rel_type = ''child'', targetId = T\<rparr> \<in> set (relationsOf out (targetId sp)) \<and>
               \<lparr>rel_type = ''parent'', targetId = targetId sp\<rparr> \<in> set (relationsOf out T)"
    if "ty = Child" and sp: "List.find isSpouseOrPartner (relationsOf ms S) = Some sp"
      and M: "targetId sp \<in> id_m ` set ms" for sp
  proof -
    have "List.find isSpouseOrPartner (relationsOf (addRelationPair list S T ''child'') S) = Some sp"
      using sp by (simp add: find_spouse_addRelationPair_child rels)
    then have "out = addRelationPair (addRelationPair list S T ''child'') (targetId sp) T ''child''"
      using that(1) by (simp add: out linkMembers_Child)
    then have "linked out (targetId sp) T ''child''"
      by (simp add: linked_addRelationPair)
    with M sub T_in ids show ?thesis
      by (auto simp: linked_def reciprocal_def)
  qed
  have spouse: "\<lparr>rel_type = ''child'', targetId = targetId c\<rparr> \<in> set (relationsOf out T) \<and>
                \<lparr>rel_type = ''parent'', targetId = T\<rparr> \<in> set (relationsOf out (targetId c))"
    if "ty = Spouse" and c: "c \<in> set (relationsOf ms S)" "rel_type c = ''child''"
      and C: "targetId c \<in> id_m ` set ms" for c
  proof -
    let ?l1 = "addRelationPair list S T ''spouse''"
    have "c \<in> set (relationsOf ?l1 S)"
      using c(1) grows_mem [OF grows_addRelationPair, of c list S] by (simp add: rels)
    with c(2) have "c \<in> set (filter (\<lambda>r. rel_type r = ''child'') (relationsOf ?l1 S))" by simp
    then have "linked out T (targetId c) ''child''"
      unfolding out that(1) linkMembers_Spouse by (rule linked_foldl)
    with C sub T_in ids show ?thesis
      by (auto simp: linked_def reciprocal_def)
  qed
  from child spouse ty show ?thesis by auto
qed

text \<open>
  A child created for Ann is a child of her spouse Bob as well; Bob, made the spouse of a
  parent of two, becomes a parent of Eve.
\<close>

theorem joint_parenting_first_spouse_witness:
  "\<lparr>rel_type = ''child'', targetId = ''5-7''\<rparr>
     \<in> set (relationsOf (members_after (session 5) (createNew ''1'' Child ''Kid'') couple) ''2'') \<and>
   \<lparr>rel_type = ''parent'', targetId = ''2''\<rparr>
     \<in> set (relationsOf (members_after (session 5) (createNew ''1'' Child ''Kid'') couple) ''5-7'') \<and>
   \<lparr>rel_type = ''child'', targetId = ''3''\<rparr>
     \<in> set (relationsOf (members_after (session 5) (pickExisting ''1'' Spouse ''4'') family) ''4'') \<and>
   \<lparr>rel_type = ''parent'', targetId = ''4''\<rparr>
     \<in> set (relationsOf (members_after (session 5) (pickExisting ''1'' Spouse ''4'') family) ''3'')"
proof -
  let ?rq = "createNew ''1'' Child ''Kid''"
  let ?out = "members_after (session 5) ?rq couple"
  have ok: "saveQuickRelation (session 5) ?rq couple = Inr ?out" by code_simp
  have S: "sourceId ?rq = Some ''1''" by (simp add: createNew_def)
  have T: "finalTarget (session 5) ?rq = Some ''5-7''" by code_simp
  have new: "useNewTarget ?rq \<or> ''5-7'' \<in> id_m ` set couple" by (simp add: createNew_def)
  have ty: "modal_type ?rq = Some Child" by (simp add: createNew_def)
  have sp: "List.find isSpouseOrPartner (relationsOf couple ''1'') = Some (edge ''spouse'' ''2'')"
    by code_simp
  have M: "targetId (edge ''spouse'' ''2'') \<in> id_m ` set couple" by code_simp
  let ?rq' = "pickExisting ''1'' Spouse ''4''"
  let ?out' = "members_after (session 5) ?rq' family"
  have ok': "saveQuickRelation (session 5) ?rq' family = Inr ?out'" by code_simp
  have S': "sourceId ?rq' = Some ''1''" by (simp add: pickExisting_def)
  have T': "finalTarget (session 5) ?rq' = Some ''4''" by code_simp
  have old: "useNewTarget ?rq' \<or> ''4'' \<in> id_m ` set family" by code_simp
  have ty': "modal_type ?rq' = Some Spouse" by (simp add: pickExisting_def)
  have c: "edge ''child'' ''3'' \<in> set (relationsOf family ''1'')"
    "rel_type (edge ''child'' ''3'') = ''child''"
    "targetId (edge ''child'' ''3'') \<in> id_m ` set family"
    by code_simp+
  from joint_parenting_first_spouse [OF ok S T new] ty sp M
  have 1: "\<lparr>rel_type = ''child'', targetId = ''5-7''\<rparr> \<in> set (relationsOf ?out ''2'') \<and>
           \<lparr>rel_type = ''parent'', targetId = ''2''\<rparr> \<in> set (relationsOf ?out ''5-7'')"
    by (simp add: edge_def)
  from joint_parenting_first_spouse [OF ok' S' T' old] ty' c
  have 2: "\<lparr>rel_type = ''child'', targetId = ''3''\<rparr> \<in> set (relationsOf ?out' ''4'') \<and>
           \<lparr>rel_type = ''parent'', targetId = ''4''\<rparr> \<in> set (relationsOf ?out' ''3'')"
    by (auto simp: edge_def)
  from 1 2 show ?thesis by simp
qed

text \<open>
  For any spouse or partner of \<open>S\<close> the statement fails: Ann has the spouses Bob and Cy, and
  after a child is created for Ann, Cy holds no child relation to the new member.
\<close>

theorem joint_parenting_first_spouse_counterexample:
  "edge ''spouse'' ''3'' \<in> set (relationsOf trio ''1'') \<and>
   finalTarget (session 5) (createNew ''1'' Child ''Kid'') = Some ''5-7'' \<and>
   edge ''child'' ''5-7''
     \<notin> set (relationsOf (members_after (session 5) (createNew ''1'' Child ''Kid'') trio) ''3'')"
  by code_simp

text \<open>
  Claim C10, amended. In a saved child edit whose source \<open>S\<close> has a spouse or partner
  relation, joint parenting is one call of \<^verbatim>\<open>addRelationPair\<close>, for the target of the first
  such relation in the relations of \<open>S\<close> and the child \<open>T\<close>. Every later spouse or partner
  relation of \<open>S\<close> whose target is neither that first target nor \<open>S\<close> leaves its target with
  the relations to \<open>T\<close> it had before.
\<close>

theorem later_spouses_gain_nothing:
  assumes ok: "saveQuickRelation e rq ms = Inr out"
    and ty: "modal_type rq = Some Child"
    and S: "sourceId rq = Some S" and T: "finalTarget e rq = Some T"
    and first: "List.find isSpouseOrPartner (relationsOf ms S) = Some sp"
  shows "out = addRelationPair
                 (addRelationPair (if useNewTarget rq then ms @ [newMember e rq] else ms) S T ''child'')
                 (targetId sp) T ''child'' \<and>
         (\<forall>later \<in> set (relationsOf ms S).
            isSpouseOrPartner later \<longrightarrow> targetId later \<noteq> targetId sp \<longrightarrow> targetId later \<noteq> S \<longrightarrow>
              filter (\<lambda>r. targetId r = T) (relationsOf out (targetId later)) =
              filter (\<lambda>r. targetId r = T) (relationsOf ms (targetId later)))"
proof -
  define list where "list = (if useNewTarget rq then ms @ [newMember e rq] else ms)"
  let ?l1 = "addRelationPair list S T ''child''"
  from ok S T ty have out0: "out = linkMembers list S T Child"
    unfolding list_def by (auto elim!: saveQuickRelation_Inr)
  have rels: "relationsOf list x = relationsOf ms x" for x
    by (simp add: list_def relationsOf_snoc_new)
  have "List.find isSpouseOrPartner (relationsOf ?l1 S) = Some sp"
    using first by (simp add: find_spouse_addRelationPair_child rels)
  then have out: "out = addRelationPair ?l1 (targetId sp) T ''child''"
    by (simp add: out0 linkMembers_Child)
  have others: "filter (\<lambda>r. targetId r = T) (relationsOf out x) =
                filter (\<lambda>r. targetId r = T) (relationsOf ms x)"
    if x: "x \<noteq> targetId sp" "x \<noteq> S" for x
  proof -
    obtain ys where ys: "relationsOf ?l1 x = relationsOf list x @ ys"
      "\<forall>y \<in> set ys. (x = S \<and> y = \<lparr>rel_type = ''child'', targetId = T\<rparr>) \<or>
                      (x = T \<and> y = \<lparr>rel_type = reciprocal ''child'', targetId = S\<rparr>)"
      using relationsOf_addRelationPair [of list S T "''child''" x] by blast
    obtain zs where zs: "relationsOf out x = relationsOf ?l1 x @ zs"
      "\<forall>y \<in> set zs. (x = targetId sp \<and> y = \<lparr>rel_type = ''child'', targetId = T\<rparr>) \<or>
                      (x = T \<and> y = \<lparr>rel_type = reciprocal ''child'', targetId = targetId sp\<rparr>)"
      unfolding out using relationsOf_addRelationPair [of ?l1 "targetId sp" T "''child''" x] by blast
    have "\<forall>y \<in> set ys. targetId y \<noteq> T" using ys(2) x by auto
    moreover have "\<forall>y \<in> set zs. targetId y \<noteq> T" using zs(2) x by auto
    ultimately show ?thesis by (simp add: ys(1) zs(1) rels)
  qed
  from out others show ?thesis unfolding list_def by blast
qed

text \<open>
  Ann has the spouses Bob and Cy: the child is linked to Bob, and Cy gains nothing.
\<close>

theorem later_spouses_gain_nothing_witness:
  "members_after (session 5) (createNew ''1'' Child ''Kid'') trio =
     addRelationPair (addRelationPair (trio @ [person ''5-7'' ''Kid'' []]) ''1'' ''5-7'' ''child'')
       ''2'' ''5-7'' ''child'' \<and>
   filter (\<lambda>r. targetId r = ''5-7'')
     (relationsOf (members_after (session 5) (createNew ''1'' Child ''Kid'') trio) ''3'') =
   filter (\<lambda>r. targetId r = ''5-7'') (relationsOf trio ''3'')"
proof -
  let ?rq = "createNew ''1'' Child ''Kid''"
  let ?out = "members_after (session 5) ?rq trio"
  have ok: "saveQuickRelation (session 5) ?rq trio = Inr ?out" by code_simp
  have ty: "modal_type ?rq = Some Child" by (simp add: createNew_def)
  have S: "sourceId ?rq = Some ''1''" by (simp add: createNew_def)
  have T: "finalTarget (session 5) ?rq = Some ''5-7''" by code_simp
  have sp: "List.find isSpouseOrPartner (relationsOf trio ''1'') = Some (edge ''spouse'' ''2'')"
    by code_simp
  have later: "edge ''spouse'' ''3'' \<in> set (relationsOf trio ''1'')"
    "isSpouseOrPartner (edge ''spouse'' ''3'')"
    "targetId (edge ''spouse'' ''3'') \<noteq> targetId (edge ''spouse'' ''2'')"
    "targetId (edge ''spouse'' ''3'') \<noteq> ''1''"
    by code_simp+
  have new: "newMember (session 5) ?rq = person ''5-7'' ''Kid'' []" by code_simp
  have use: "useNewTarget ?rq" by (simp add: createNew_def)
  from later_spouses_gain_nothing [OF ok ty S T sp] later new use show ?thesis
    by (auto simp: edge_def)
qed

text \<open>
  Without the exclusion the statement fails: Ann holds \<open>(spouse, 2)\<close> and then
  \<open>(partner, 2)\<close>, and Bob, the target of the later relation, gains \<open>(child, T)\<close>.
\<close>

theorem later_spouses_gain_nothing_counterexample:
  "relationsOf twoBonds ''1'' = [edge ''spouse'' ''2'', edge ''partner'' ''2''] \<and>
   finalTarget (session 5) (createNew ''1'' Child ''Kid'') = Some ''5-7'' \<and>
   edge ''child'' ''5-7'' \<notin> set (relationsOf twoBonds ''2'') \<and>
   edge ''child'' ''5-7''
     \<in> set (relationsOf (members_after (session 5) (createNew ''1'' Child ''Kid'') twoBonds) ''2'')"
  by code_simp

text \<open>
  Claim C2. It does not hold of the code. Ann and Bob are spouses and no relation targets its
  owner. The request makes Bob, picked among the existing members, a child of Ann. Joint
  parenting then calls \<^verbatim>\<open>addRelationPair\<close> for Ann's spouse Bob and the child Bob, and Bob
  ends up holding \<open>(child, 2)\<close> and \<open>(parent, 2)\<close>, which target his own id.
\<close>

theorem joint_parenting_self_relation:
  "no_self_relation couple \<and>
   members_after (session 5) (pickExisting ''1'' Child ''2'') couple =
     [person ''1'' ''Ann'' [edge ''spouse'' ''2'', edge ''child'' ''2''],
      person ''2'' ''Bob'' [edge ''spouse'' ''1'', edge ''parent'' ''1'',
                            edge ''child'' ''2'', edge ''parent'' ''2'']] \<and>
   \<not> no_self_relation (members_after (session 5) (pickExisting ''1'' Child ''2'') couple)"
  by code_simp

section \<open>Lemmas and results about the Import Sanitizer\<close>

lemma sanitizeItems_step:
  "sanitizeItems (item # rest) seen acc =
     (if nonBlankIdAndName item \<and> item_id item \<notin> seen
      then sanitizeItems rest (insert (item_id item) seen)
             (acc @ [sanitizedMember (item_id item) (item_name item) item])
      else sanitizeItems rest seen acc)"
  by (cases item)
     (auto simp: nonBlankIdAndName_def item_id_def item_name_def split: option.splits)

lemma sanitizeItems_acc:
  "sanitizeItems items seen acc = acc @ sanitizeItems items seen []"
proof (induction items arbitrary: seen acc)
  case Nil
  show ?case by simp
next
  case (Cons item rest)
  show ?case
    unfolding sanitizeItems_step
    using Cons.IH [of "insert (item_id item) seen" "acc @ [sanitizedMember (item_id item) (item_name item) item]"]
          Cons.IH [of "insert (item_id item) seen" "[sanitizedMember (item_id item) (item_name item) item]"]
          Cons.IH [of seen acc]
    by simp
qed

lemma id_sanitizedMember: "id_m (sanitizedMember i n item) = i"
  by (simp add: sanitizedMember_def)

lemma sanitizeItems_snoc:
  "sanitizeItems (items @ [item]) seen [] =
     sanitizeItems items seen [] @
       (if nonBlankIdAndName item \<and> item_id item \<notin> seen \<union> id_m ` set (sanitizeItems items seen [])
        then [sanitizedMember (item_id item) (item_name item) item] else [])"
proof (induction items arbitrary: seen)
  case Nil
  show ?case by (simp add: sanitizeItems_step del: sanitizeItems.simps(2))
next
  case (Cons x rest)
  show ?case
  proof (cases "nonBlankIdAndName x \<and> item_id x \<notin> seen")
    case True
    let ?m = "sanitizedMember (item_id x) (item_name x) x"
    have "sanitizeItems ((x # rest) @ [item]) seen [] =
          ?m # sanitizeItems (rest @ [item]) (insert (item_id x) seen) []"
      using True sanitizeItems_acc [of "rest @ [item]" "insert (item_id x) seen" "[?m]"]
      by (simp add: sanitizeItems_step del: sanitizeItems.simps(2))
    moreover have "sanitizeItems (x # rest) seen [] = ?m # sanitizeItems rest (insert (item_id x) seen) []"
      using True sanitizeItems_acc [of rest "insert (item_id x) seen" "[?m]"]
      by (simp add: sanitizeItems_step del: sanitizeItems.simps(2))
    ultimately show ?thesis
      using Cons.IH [of "insert (item_id x) seen"] by (simp add: id_sanitizedMember)
  next
    case False
    then show ?thesis
      using Cons.IH [of seen] by (auto simp add: sanitizeItems_step simp del: sanitizeItems.simps(2))
  qed
qed

lemma toRelation_other:
  "typeof (getProp r ''type'') \<noteq> ''string'' \<Longrightarrow> rel_type (toRelation r) = ''other''"
  by (cases "getProp r ''type''" rule: stringOrUndefined.cases) (simp_all add: toRelation_def)

lemma relations_sanitizedMember:
  "rel \<in> set (relations (sanitizedMember i n item)) \<Longrightarrow>
     \<exists>r \<in> set (elements (getProp item ''relations'')). rel = toRelation r"
  by (auto simp: sanitizedMember_def sanitizeRelations_def)

lemma ids_dropDangling: "map id_m (dropDangling s) = map id_m s"
  by (simp add: dropDangling_def Let_def comp_def)

text \<open>
  Claim C7. In every list the sanitizer returns, the \<^verbatim>\<open>targetId\<close> of every relation is the id
  of a member of that list.
\<close>

theorem no_dangling_after_import:
  assumes "normalizeImportedFamily data = Some ms"
  shows "\<forall>m \<in> set ms. \<forall>r \<in> set (relations m). \<exists>t \<in> set ms. id_m t = targetId r"
proof -
  obtain s where ms: "ms = [] \<or> ms = dropDangling s"
    using assms by (auto simp: normalizeImportedFamily_def Let_def split: if_splits)
  show ?thesis
  proof (cases "ms = []")
    case True then show ?thesis by simp
  next
    case False
    with ms have eq: "ms = dropDangling s" by simp
    have "id_m ` set ms = id_m ` set s"
      using ids_dropDangling [of s] eq by (metis set_map)
    then show ?thesis
      unfolding eq by (auto simp: dropDangling_def Let_def)
  qed
qed

text \<open>
  An export with a relation to a missing id, a number among the members and a repeated
  id: the dangling relation is pruned, the other one stays.
\<close>

theorem no_dangling_after_import_witness:
  "normalizeImportedFamily exportWithDangling =
     Some [\<lparr>id_m = ''a'', name = ''A'', dob = None, email = None, photo = None, sex = None,
             relations = [\<lparr>rel_type = ''other'', targetId = ''b''\<rparr>]\<rparr>,
           \<lparr>id_m = ''b'', name = ''B'', dob = None, email = None, photo = None, sex = None,
             relations = []\<rparr>] \<and>
   (\<exists>t \<in> set (the (normalizeImportedFamily exportWithDangling)). id_m t = ''b'')"
proof -
  let ?a = "\<lparr>id_m = ''a'', name = ''A'', dob = None, email = None, photo = None, sex = None,
             relations = [\<lparr>rel_type = ''other'', targetId = ''b''\<rparr>]\<rparr>"
  let ?b = "\<lparr>id_m = ''b'', name = ''B'', dob = None, email = None, photo = None, sex = None,
             relations = []\<rparr>"
  have ev: "normalizeImportedFamily exportWithDangling = Some [?a, ?b]"
    by code_simp
  have "\<forall>m \<in> set [?a, ?b]. \<forall>r \<in> set (relations m). \<exists>t \<in> set [?a, ?b]. id_m t = targetId r"
    by (rule no_dangling_after_import [OF ev])
  then have "\<exists>t \<in> set [?a, ?b]. id_m t = ''b''" by simp
  with ev show ?thesis by simp
qed

lemma normalizeImportedFamily_never_null: "normalizeImportedFamily data \<noteq> None"
  by (simp add: normalizeImportedFamily_def Let_def)

text \<open>
  Claim C3. It does not hold of the code. For a number \<^verbatim>\<open>rawList\<close> falls back to the empty
  array, so the \<^verbatim>\<open>null\<close> return is never reached and the result is the empty list, the one
  an export without valid members gives.
\<close>

theorem number_is_not_rejected:
  "normalizeImportedFamily (JNum 42) = Some [] \<and> normalizeImportedFamily (JNum 42) \<noteq> None"
  by code_simp

lemma toRelation_in_relations:
  assumes r: "r \<in> set (elements (getProp item ''relations''))"
    and t: "getProp r ''targetId'' = Some (JStr t)" "t \<noteq> []" "t \<noteq> i"
  shows "toRelation r \<in> set (relations (sanitizedMember i n item))"
proof -
  obtain kvs where kvs: "r = JObj kvs" using t(1) by (cases r) simp_all
  have arr: "isArray (getProp item ''relations'')"
    using r by (cases "getProp item ''relations''" rule: isArray.cases) simp_all
  have "targetId (toRelation r) = t" using t(1) by (simp add: toRelation_def)
  with r t arr kvs show ?thesis
    by (simp add: sanitizedMember_def sanitizeRelations_def)
qed

lemma toRelation_string_type:
  "getProp r ''type'' = Some (JStr ty) \<Longrightarrow> rel_type (toRelation r) = ty"
  by (simp add: toRelation_def)

lemma toRelation_targetId:
  "getProp r ''targetId'' = Some (JStr t) \<Longrightarrow> targetId (toRelation r) = t"
  by (simp add: toRelation_def)

text \<open>
  Claim C8, amended. For an array of items the sanitizer returns a list, never an error.
  Its per-item pass keeps an item, behind the items kept before it, if and only if the
  item is an object whose string id and string name are not empty once trimmed and whose
  id is not the id of an item kept earlier. The kept member carries the item's id. Each of
  its relations comes from an entry of the item's \<^verbatim>\<open>relations\<close> array, and every entry
  whose \<^verbatim>\<open>targetId\<close> is a non-empty string other than the item's id is kept, in the order of
  the array: with type other when the type of the entry is not a string, with its own type
  when it is.
\<close>

theorem per_item_pass_keeps_nonblank:
  "normalizeImportedFamily (JArr items) =
     Some (if sanitizeItems items {} [] = [] then [] else dropDangling (sanitizeItems items {} [])) \<and>
   sanitizeItems [] {} [] = [] \<and>
   sanitizeItems (items @ [item]) {} [] =
     sanitizeItems items {} [] @
       (if nonBlankIdAndName item \<and> item_id item \<notin> id_m ` set (sanitizeItems items {} [])
        then [sanitizedMember (item_id item) (item_name item) item] else []) \<and>
   id_m (sanitizedMember (item_id item) (item_name item) item) = item_id item \<and>
   (\<forall>rel \<in> set (relations (sanitizedMember (item_id item) (item_name item) item)).
      \<exists>r \<in> set (elements (getProp item ''relations'')).
        rel = toRelation r \<and>
        (typeof (getProp r ''type'') \<noteq> ''string'' \<longrightarrow> rel_type rel = ''other'')) \<and>
   (\<forall>r \<in> set (elements (getProp item ''relations'')).
      \<forall>t. getProp r ''targetId'' = Some (JStr t) \<longrightarrow> t \<noteq> [] \<longrightarrow> t \<noteq> item_id item \<longrightarrow>
        (typeof (getProp r ''type'') \<noteq> ''string'' \<longrightarrow>
           \<lparr>rel_type = ''other'', targetId = t\<rparr>
             \<in> set (relations (sanitizedMember (item_id item) (item_name item) item))) \<and>
        (\<forall>ty. getProp r ''type'' = Some (JStr ty) \<longrightarrow>
           \<lparr>rel_type = ty, targetId = t\<rparr>
             \<in> set (relations (sanitizedMember (item_id item) (item_name item) item)))) \<and>
   relations (sanitizedMember (item_id item) (item_name item) item) =
     filter (\<lambda>rel. targetId rel \<noteq> [] \<and> targetId rel \<noteq> item_id item)
       (map toRelation
          (filter (\<lambda>r. truthy (Some r) \<and> typeof (Some r) = ''object'')
             (elements (getProp item ''relations''))))"
proof (intro conjI)
  let ?m = "sanitizedMember (item_id item) (item_name item) item"
  show "normalizeImportedFamily (JArr items) =
     Some (if sanitizeItems items {} [] = [] then [] else dropDangling (sanitizeItems items {} []))"
    by (simp add: normalizeImportedFamily_def Let_def)
  show "sanitizeItems [] {} [] = []" by simp
  show "sanitizeItems (items @ [item]) {} [] =
     sanitizeItems items {} [] @
       (if nonBlankIdAndName item \<and> item_id item \<notin> id_m ` set (sanitizeItems items {} [])
        then [?m] else [])"
    using sanitizeItems_snoc [of items item "{}"] by simp
  show "id_m ?m = item_id item"
    by (rule id_sanitizedMember)
  show "\<forall>rel \<in> set (relations ?m).
      \<exists>r \<in> set (elements (getProp item ''relations'')).
        rel = toRelation r \<and>
        (typeof (getProp r ''type'') \<noteq> ''string'' \<longrightarrow> rel_type rel = ''other'')"
    using relations_sanitizedMember toRelation_other by blast
  show "\<forall>r \<in> set (elements (getProp item ''relations'')).
      \<forall>t. getProp r ''targetId'' = Some (JStr t) \<longrightarrow> t \<noteq> [] \<longrightarrow> t \<noteq> item_id item \<longrightarrow>
        (typeof (getProp r ''type'') \<noteq> ''string'' \<longrightarrow>
           \<lparr>rel_type = ''other'', targetId = t\<rparr> \<in> set (relations ?m)) \<and>
        (\<forall>ty. getProp r ''type'' = Some (JStr ty) \<longrightarrow>
           \<lparr>rel_type = ty, targetId = t\<rparr> \<in> set (relations ?m))"
  proof (intro ballI allI impI conjI)
    fix r t
    assume r: "r \<in> set (elements (getProp item ''relations''))"
      and t: "getProp r ''targetId'' = Some (JStr t)" "t \<noteq> []" "t \<noteq> item_id item"
    have mem: "toRelation r \<in> set (relations ?m)"
      by (rule toRelation_in_relations [OF r t])
    have tgt: "targetId (toRelation r) = t" by (rule toRelation_targetId [OF t(1)])
    have eq: "toRelation r = \<lparr>rel_type = rel_type (toRelation r), targetId = targetId (toRelation r)\<rparr>"
      by simp
    {
      assume "typeof (getProp r ''type'') \<noteq> ''string''"
      then have "rel_type (toRelation r) = ''other''" by (rule toRelation_other)
      with tgt eq have "toRelation r = \<lparr>rel_type = ''other'', targetId = t\<rparr>" by simp
      with mem show "\<lparr>rel_type = ''other'', targetId = t\<rparr> \<in> set (relations ?m)" by simp
    }
    {
      fix ty assume "getProp r ''type'' = Some (JStr ty)"
      then have "rel_type (toRelation r) = ty" by (rule toRelation_string_type)
      with tgt eq have "toRelation r = \<lparr>rel_type = ty, targetId = t\<rparr>" by simp
      with mem show "\<lparr>rel_type = ty, targetId = t\<rparr> \<in> set (relations ?m)" by simp
    }
  qed
  show "relations ?m =
     filter (\<lambda>rel. targetId rel \<noteq> [] \<and> targetId rel \<noteq> item_id item)
       (map toRelation
          (filter (\<lambda>r. truthy (Some r) \<and> typeof (Some r) = ''object'')
             (elements (getProp item ''relations''))))"
    by (cases "getProp item ''relations''" rule: isArray.cases)
       (simp_all add: sanitizedMember_def sanitizeRelations_def)
qed

text \<open>
  Two valid items around a number; the one relation entry of the second item has a number
  as its type and is kept with type other.
\<close>

theorem per_item_pass_keeps_nonblank_witness:
  "nonBlankIdAndName secondItem \<and>
   item_id secondItem \<notin> id_m ` set (sanitizeItems [firstItem, JNum 1] {} []) \<and>
   sanitizeItems [firstItem, JNum 1, secondItem] {} [] =
     [\<lparr>id_m = ''a'', name = ''A'', dob = None, email = None, photo = None, sex = None,
        relations = []\<rparr>,
      \<lparr>id_m = ''b'', name = ''B'', dob = None, email = None, photo = None, sex = None,
        relations = [\<lparr>rel_type = ''other'', targetId = ''a''\<rparr>]\<rparr>] \<and>
   numberTypedEntry \<in> set (elements (getProp secondItem ''relations'')) \<and>
   typeof (getProp numberTypedEntry ''type'') \<noteq> ''string'' \<and>
   \<lparr>rel_type = ''other'', targetId = ''a''\<rparr>
     \<in> set (relations (sanitizedMember (item_id secondItem) (item_name secondItem) secondItem))"
proof -
  have h: "nonBlankIdAndName secondItem \<and>
           item_id secondItem \<notin> id_m ` set (sanitizeItems [firstItem, JNum 1] {} [])"
    by code_simp
  have first: "sanitizeItems [firstItem, JNum 1] {} [] =
     [\<lparr>id_m = ''a'', name = ''A'', dob = None, email = None, photo = None, sex = None,
        relations = []\<rparr>]"
    by code_simp
  have built: "sanitizedMember (item_id secondItem) (item_name secondItem) secondItem =
      \<lparr>id_m = ''b'', name = ''B'', dob = None, email = None, photo = None, sex = None,
        relations = [\<lparr>rel_type = ''other'', targetId = ''a''\<rparr>]\<rparr>"
    by code_simp
  have entry: "numberTypedEntry \<in> set (elements (getProp secondItem ''relations''))"
    "getProp numberTypedEntry ''targetId'' = Some (JStr ''a'')"
    "''a'' \<noteq> []" "''a'' \<noteq> item_id secondItem"
    "typeof (getProp numberTypedEntry ''type'') \<noteq> ''string''"
    by code_simp+
  note all = per_item_pass_keeps_nonblank [of "[firstItem, JNum 1]" secondItem]
  from all h first built
  have pass: "sanitizeItems [firstItem, JNum 1, secondItem] {} [] =
     [\<lparr>id_m = ''a'', name = ''A'', dob = None, email = None, photo = None, sex = None,
        relations = []\<rparr>,
      \<lparr>id_m = ''b'', name = ''B'', dob = None, email = None, photo = None, sex = None,
        relations = [\<lparr>rel_type = ''other'', targetId = ''a''\<rparr>]\<rparr>]"
    by simp
  from all entry
  have "\<lparr>rel_type = ''other'', targetId = ''a''\<rparr>
     \<in> set (relations (sanitizedMember (item_id secondItem) (item_name secondItem) secondItem))"
    by blast
  with h pass entry show ?thesis by simp
qed

text \<open>
  With non-empty in place of non-blank the statement fails: an item whose id is a single
  space is an object with a non-empty string id and a non-empty string name, and it is
  dropped.
\<close>

theorem per_item_pass_keeps_nonblank_counterexample:
  "nonEmptyIdAndName blankIdItem \<and> sanitizeItems [blankIdItem] {} [] = [] \<and>
   normalizeImportedFamily (JArr [blankIdItem]) = Some []"
  by code_simp

end
